theory Spec2Isabelle
  imports Main "HOL-Library.Word"
begin

unbundle bit_operations_syntax

section \<open>Buffers and strings\<close>

text \<open>
  A Node \<open>Buffer\<close> is a sequence of bytes. A JavaScript string is a sequence of UTF-16
  code units, and \<open>s.length\<close> counts code units. The conversions between the two that the
  class calls (\<open>Buffer.from\<close> and \<open>toString\<close> with the encodings \<open>utf8\<close>, \<open>hex\<close> and
  \<open>base64\<close>) belong to Node, not to the repository; they are written out here as Node
  documents them.
\<close>

type_synonym byte = "8 word"
type_synonym buffer = "byte list"
type_synonym jschar = "16 word"
type_synonym jsstring = "jschar list"

definition ascii :: "string \<Rightarrow> jsstring" where
  "ascii s = map of_char s"

subsection \<open>\<open>Buffer.from(s, "utf8")\<close>\<close>

definition is_lead :: "jschar \<Rightarrow> bool" where
  "is_lead c = (0xD800 \<le> c \<and> c < 0xDC00)"

definition is_trail :: "jschar \<Rightarrow> bool" where
  "is_trail c = (0xDC00 \<le> c \<and> c < 0xE000)"

definition utf8_cp :: "nat \<Rightarrow> buffer" where
  "utf8_cp n =
     (if n < 0x80 then [of_nat n]
      else if n < 0x800 then [of_nat (0xC0 + n div 64), of_nat (0x80 + n mod 64)]
      else if n < 0x10000 then
        [of_nat (0xE0 + n div 4096), of_nat (0x80 + (n div 64) mod 64), of_nat (0x80 + n mod 64)]
      else
        [of_nat (0xF0 + n div 262144), of_nat (0x80 + (n div 4096) mod 64),
         of_nat (0x80 + (n div 64) mod 64), of_nat (0x80 + n mod 64)])"

text \<open>A surrogate pair is one code point; a lone surrogate is written as U+FFFD.\<close>

fun utf8 :: "jsstring \<Rightarrow> buffer" where
  "utf8 [] = []"
| "utf8 [c] = (if is_lead c \<or> is_trail c then utf8_cp 0xFFFD else utf8_cp (unat c))"
| "utf8 (c # d # cs) =
     (if is_lead c \<and> is_trail d then
        utf8_cp (0x10000 + (unat c - 0xD800) * 0x400 + (unat d - 0xDC00)) @ utf8 cs
      else if is_lead c \<or> is_trail c then utf8_cp 0xFFFD @ utf8 (d # cs)
      else utf8_cp (unat c) @ utf8 (d # cs))"

subsection \<open>\<open>buf.toString("hex")\<close>\<close>

definition hex_digit :: "nat \<Rightarrow> jschar" where
  "hex_digit n = (if n < 10 then of_nat (48 + n) else of_nat (87 + n))"

definition toHex :: "buffer \<Rightarrow> jsstring" where
  "toHex bs = concat (map (\<lambda>b. [hex_digit (unat b div 16), hex_digit (unat b mod 16)]) bs)"

subsection \<open>\<open>buf.toString("base64")\<close> and \<open>Buffer.from(s, "base64")\<close>\<close>

text \<open>The standard alphabet: \<open>A-Z\<close>, \<open>a-z\<close>, \<open>0-9\<close>, \<open>+\<close>, \<open>/\<close>, with \<open>=\<close> (61) as padding.\<close>

definition b64_code :: "nat \<Rightarrow> nat" where
  "b64_code n =
     (if n < 26 then 65 + n
      else if n < 52 then 71 + n
      else if n < 62 then n - 4
      else if n = 62 then 43 else 47)"

definition b64_char :: "byte \<Rightarrow> jschar" where
  "b64_char v = of_nat (b64_code (unat v))"

fun toBase64 :: "buffer \<Rightarrow> jsstring" where
  "toBase64 [] = []"
| "toBase64 [a] =
     [b64_char (drop_bit 2 a), b64_char (push_bit 4 (a AND 3)), 61, 61]"
| "toBase64 [a, b] =
     [b64_char (drop_bit 2 a), b64_char (push_bit 4 (a AND 3) OR drop_bit 4 b),
      b64_char (push_bit 2 (b AND 15)), 61]"
| "toBase64 (a # b # c # rest) =
     [b64_char (drop_bit 2 a), b64_char (push_bit 4 (a AND 3) OR drop_bit 4 b),
      b64_char (push_bit 2 (b AND 15) OR drop_bit 6 c), b64_char (c AND 63)] @ toBase64 rest"

text \<open>
  Node's decoder never throws. It looks at the low byte of each code unit, accepts the
  standard and the URL-safe alphabet, skips every other character, and stops at the
  first \<open>=\<close>. A trailing group of two or three sextets gives one or two bytes; a single
  trailing sextet gives none.
\<close>

definition unbase64_code :: "nat \<Rightarrow> nat option" where
  "unbase64_code n =
     (if 65 \<le> n \<and> n \<le> 90 then Some (n - 65)
      else if 97 \<le> n \<and> n \<le> 122 then Some (n - 71)
      else if 48 \<le> n \<and> n \<le> 57 then Some (n + 4)
      else if n = 43 \<or> n = 45 then Some 62
      else if n = 47 \<or> n = 95 then Some 63
      else None)"

definition unbase64 :: "jschar \<Rightarrow> byte option" where
  "unbase64 c = map_option of_nat (unbase64_code (unat (ucast c :: byte)))"

fun b64_sextets :: "jsstring \<Rightarrow> byte list" where
  "b64_sextets [] = []"
| "b64_sextets (c # cs) =
     (case unbase64 c of
        Some v \<Rightarrow> v # b64_sextets cs
      | None \<Rightarrow> if (ucast c :: byte) = 61 then [] else b64_sextets cs)"

fun b64_bytes :: "byte list \<Rightarrow> buffer" where
  "b64_bytes [] = []"
| "b64_bytes [p] = []"
| "b64_bytes [p, q] = [push_bit 2 (p AND 0x3F) OR drop_bit 4 (q AND 0x30)]"
| "b64_bytes [p, q, r] =
     [push_bit 2 (p AND 0x3F) OR drop_bit 4 (q AND 0x30),
      push_bit 4 (q AND 0x0F) OR drop_bit 2 (r AND 0x3C)]"
| "b64_bytes (p # q # r # s # rest) =
     [push_bit 2 (p AND 0x3F) OR drop_bit 4 (q AND 0x30),
      push_bit 4 (q AND 0x0F) OR drop_bit 2 (r AND 0x3C),
      push_bit 6 (r AND 0x03) OR (s AND 0x3F)] @ b64_bytes rest"

definition fromBase64 :: "jsstring \<Rightarrow> buffer" where
  "fromBase64 s = b64_bytes (b64_sextets s)"

section \<open>The crypto module\<close>

text \<open>
  The class is a wrapper around Node's \<open>crypto\<close> module, which is not part of the
  repository. Its cipher and decipher objects are a parameter of the model: a record of
  the calls the class makes, over the types \<open>'c\<close> and \<open>'d\<close> of the two objects'
  states. Each call returns \<open>None\<close> where Node throws; a call that mutates the object
  returns its new state.
\<close>

record ('c, 'd) crypto =
  createCipheriv :: "string \<Rightarrow> buffer \<Rightarrow> buffer \<Rightarrow> 'c option"
  cipher_update :: "'c \<Rightarrow> buffer \<Rightarrow> ('c \<times> buffer) option"
  cipher_final :: "'c \<Rightarrow> ('c \<times> buffer) option"
  getAuthTag :: "'c \<Rightarrow> buffer option"
  createDecipheriv :: "string \<Rightarrow> buffer \<Rightarrow> buffer \<Rightarrow> 'd option"
  setAuthTag :: "'d \<Rightarrow> buffer \<Rightarrow> 'd option"
  decipher_update :: "'d \<Rightarrow> buffer \<Rightarrow> ('d \<times> buffer) option"
  decipher_final :: "'d \<Rightarrow> buffer option"

text \<open>
  \<open>crypto.randomBytes(n)\<close> returns \<open>n\<close> bytes of the random source, which is modelled
  as the stream of bytes it will deliver.
\<close>

type_synonym entropy = "nat \<Rightarrow> byte"

definition randomBytes :: "entropy \<Rightarrow> nat \<Rightarrow> buffer" where
  "randomBytes rnd n = map rnd [0..<n]"

section \<open>The class \<open>AES256GCM\<close>\<close>

text \<open>
  The errors: the three \<open>Error\<close>s the class throws (key length, IV length, failed
  decryption), under the names of the specification's taxonomy; the two further kinds of
  that taxonomy which the claims name; and an exception of the crypto module that the
  class lets through.
\<close>

datatype error =
    InvalidKeyLength
  | InvalidNonceLength
  | AuthenticationFailed
  | MalformedBlob
  | InvalidTextEncoding
  | LibraryError

definition algorithm :: string where
  "algorithm = ''aes-256-gcm''"

definition keyLength :: nat where
  "keyLength = 32"

definition ivLength :: nat where
  "ivLength = 6"

definition authTagLength :: nat where
  "authTagLength = 16"

text \<open>An argument of type \<open>string | Buffer\<close>, and its conversion to a \<open>Buffer\<close>.\<close>

datatype string_or_buffer = Str jsstring | Buf buffer

definition bufferOf :: "string_or_buffer \<Rightarrow> buffer" where
  "bufferOf x = (case x of Str s \<Rightarrow> utf8 s | Buf b \<Rightarrow> b)"

definition generateKey :: "entropy \<Rightarrow> buffer" where
  "generateKey rnd = randomBytes rnd keyLength"

definition generateRandomString :: "entropy \<Rightarrow> jsstring" where
  "generateRandomString rnd = take ivLength (toHex (randomBytes rnd ivLength))"

record encrypt_result =
  encrypted :: buffer
  iv :: jsstring
  authTag :: buffer

text \<open>
  \<open>fixedIv\<close> is an optional string: \<open>None\<close> is \<open>undefined\<close>. Both uses of it in
  \<open>encrypt\<close> test its truthiness, and the empty string is falsy.
\<close>

definition truthy :: "jsstring option \<Rightarrow> bool" where
  "truthy x = (case x of None \<Rightarrow> False | Some s \<Rightarrow> s \<noteq> [])"

definition encrypt ::
  "('c, 'd) crypto \<Rightarrow> entropy \<Rightarrow> string_or_buffer \<Rightarrow> buffer \<Rightarrow> jsstring option
     \<Rightarrow> error + encrypt_result" where
  "encrypt lib rnd data key fixedIv =
     (if length key \<noteq> keyLength then Inl InvalidKeyLength
      else
        let ivString = (if truthy fixedIv then the fixedIv else generateRandomString rnd)
        in
        if truthy fixedIv \<and> length (the fixedIv) \<noteq> ivLength then Inl InvalidNonceLength
        else
          let ivb = utf8 ivString in
          (case createCipheriv lib algorithm key ivb of
             None \<Rightarrow> Inl LibraryError
           | Some cipher \<Rightarrow>
               let dataBuffer = bufferOf data in
               (case cipher_update lib cipher dataBuffer of
                  None \<Rightarrow> Inl LibraryError
                | Some (cipher1, part1) \<Rightarrow>
                    (case cipher_final lib cipher1 of
                       None \<Rightarrow> Inl LibraryError
                     | Some (cipher2, part2) \<Rightarrow>
                         (case getAuthTag lib cipher2 of
                            None \<Rightarrow> Inl LibraryError
                          | Some tag \<Rightarrow>
                              Inr \<lparr>encrypted = part1 @ part2, iv = ivString,
                                   authTag = tag\<rparr>)))))"

text \<open>
  In \<open>decrypt\<close> the \<open>try\<close> block holds \<open>update\<close> and \<open>final\<close> only: whatever they throw
  is replaced by the one decryption error, and the output of \<open>update\<close> is dropped with
  it. \<open>createDecipheriv\<close> and \<open>setAuthTag\<close> are called before the block.
\<close>

definition decrypt ::
  "('c, 'd) crypto \<Rightarrow> buffer \<Rightarrow> buffer \<Rightarrow> string_or_buffer \<Rightarrow> buffer \<Rightarrow> error + buffer" where
  "decrypt lib enc key ivarg tag =
     (if length key \<noteq> keyLength then Inl InvalidKeyLength
      else
        let ivBuffer = bufferOf ivarg in
        (case createDecipheriv lib algorithm key ivBuffer of
           None \<Rightarrow> Inl LibraryError
         | Some decipher \<Rightarrow>
             (case setAuthTag lib decipher tag of
                None \<Rightarrow> Inl LibraryError
              | Some decipher1 \<Rightarrow>
                  (case decipher_update lib decipher1 enc of
                     None \<Rightarrow> Inl AuthenticationFailed
                   | Some (decipher2, part1) \<Rightarrow>
                       (case decipher_final lib decipher2 of
                          None \<Rightarrow> Inl AuthenticationFailed
                        | Some part2 \<Rightarrow> Inr (part1 @ part2))))))"

definition encryptToBuffer ::
  "('c, 'd) crypto \<Rightarrow> entropy \<Rightarrow> string_or_buffer \<Rightarrow> buffer \<Rightarrow> jsstring option
     \<Rightarrow> error + buffer" where
  "encryptToBuffer lib rnd data key fixedIv =
     (case encrypt lib rnd data key fixedIv of
        Inl e \<Rightarrow> Inl e
      | Inr r \<Rightarrow>
          let ivBuffer = utf8 (iv r) in
          Inr (ivBuffer @ authTag r @ encrypted r))"

text \<open>\<open>buf.subarray(start, end)\<close> clamps both indices to the buffer, as \<open>take\<close> and \<open>drop\<close> do.\<close>

definition subarray :: "buffer \<Rightarrow> nat \<Rightarrow> nat \<Rightarrow> buffer" where
  "subarray b start end = take (end - start) (drop start b)"

definition subarray_from :: "buffer \<Rightarrow> nat \<Rightarrow> buffer" where
  "subarray_from b start = drop start b"

definition decryptFromBuffer :: "('c, 'd) crypto \<Rightarrow> buffer \<Rightarrow> buffer \<Rightarrow> error + buffer" where
  "decryptFromBuffer lib encryptedBuffer key =
     (let ivBuffer = subarray encryptedBuffer 0 ivLength;
          tag = subarray encryptedBuffer ivLength (ivLength + authTagLength);
          enc = subarray_from encryptedBuffer (ivLength + authTagLength)
      in decrypt lib enc key (Buf ivBuffer) tag)"

definition encryptToString ::
  "('c, 'd) crypto \<Rightarrow> entropy \<Rightarrow> string_or_buffer \<Rightarrow> buffer \<Rightarrow> jsstring option
     \<Rightarrow> error + jsstring" where
  "encryptToString lib rnd data key fixedIv =
     (case encryptToBuffer lib rnd data key fixedIv of
        Inl e \<Rightarrow> Inl e
      | Inr b \<Rightarrow> Inr (toBase64 b))"

definition decryptFromString :: "('c, 'd) crypto \<Rightarrow> jsstring \<Rightarrow> buffer \<Rightarrow> error + buffer" where
  "decryptFromString lib encryptedString key =
     (let encryptedBuffer = fromBase64 encryptedString
      in decryptFromBuffer lib encryptedBuffer key)"

section \<open>What the theorems assume of the cipher\<close>

text \<open>
  The specification takes the AEAD primitive as an external collaborator with a
  contract: authenticated encryption to a ciphertext as long as the plaintext and a
  128-bit tag, and authenticated decryption that returns the plaintext or fails. The
  theorems take the instances of this contract they need as hypotheses, stated on the
  calls the class makes.

  The result of the calls \<open>encrypt\<close> makes on a cipher for the key \<open>key\<close> and the nonce
  bytes \<open>ivb\<close>: the ciphertext and the tag, or \<open>None\<close> when one of the calls throws.
\<close>

definition seal ::
  "('c, 'd) crypto \<Rightarrow> buffer \<Rightarrow> buffer \<Rightarrow> buffer \<Rightarrow> (buffer \<times> buffer) option" where
  "seal lib key ivb p =
     (case createCipheriv lib algorithm key ivb of
        None \<Rightarrow> None
      | Some c \<Rightarrow>
          (case cipher_update lib c p of
             None \<Rightarrow> None
           | Some (c1, u) \<Rightarrow>
               (case cipher_final lib c1 of
                  None \<Rightarrow> None
                | Some (c2, f) \<Rightarrow>
                    (case getAuthTag lib c2 of
                       None \<Rightarrow> None
                     | Some t \<Rightarrow> Some (u @ f, t)))))"

text \<open>
  The decipher for \<open>key\<close> and \<open>ivb\<close> takes the tag \<open>t\<close> and opens the ciphertext \<open>c\<close>
  to \<open>p\<close>.
\<close>

definition lib_accepts ::
  "('c, 'd) crypto \<Rightarrow> buffer \<Rightarrow> buffer \<Rightarrow> buffer \<Rightarrow> buffer \<Rightarrow> buffer \<Rightarrow> bool" where
  "lib_accepts lib key ivb c t p =
     (case createDecipheriv lib algorithm key ivb of
        None \<Rightarrow> False
      | Some d \<Rightarrow>
          (case setAuthTag lib d t of
             None \<Rightarrow> False
           | Some d1 \<Rightarrow>
               (case decipher_update lib d1 c of
                  None \<Rightarrow> False
                | Some (d2, u) \<Rightarrow>
                    (case decipher_final lib d2 of
                       None \<Rightarrow> False
                     | Some f \<Rightarrow> u @ f = p))))"



text \<open>
  The specification's notion of valid base64 text ("standard alphabet, with padding"):
  the text is the encoding of the bytes read from it. The source has no such test.
\<close>

definition valid_base64 :: "jsstring \<Rightarrow> bool" where
  "valid_base64 s = (toBase64 (fromBase64 s) = s)"

section \<open>A cipher to evaluate the class with\<close>

text \<open>
  An instance of the interface, for concrete inputs: a keyed XOR stream with a
  checksum tag. It is not AES-GCM. It accepts what Node's \<open>aes-256-gcm\<close> accepts (a
  32-byte key, a nonce that is not empty, a tag of 4, 8 or 12 to 16 bytes), and it
  satisfies what the theorems below assume of the cipher.
\<close>

definition xor_pad :: "buffer \<Rightarrow> buffer \<Rightarrow> byte" where
  "xor_pad key ivb = fold (XOR) (key @ ivb) 0x5A"

definition xor_tag :: "byte \<Rightarrow> buffer \<Rightarrow> buffer" where
  "xor_tag pad c = fold (XOR) c pad # of_nat (length c) # replicate 14 pad"

definition xor_lib :: "(byte \<times> buffer, byte \<times> buffer \<times> buffer) crypto" where
  "xor_lib =
     \<lparr>createCipheriv = (\<lambda>alg key ivb.
        if alg = ''aes-256-gcm'' \<and> length key = 32 \<and> ivb \<noteq> []
        then Some (xor_pad key ivb, []) else None),
      cipher_update = (\<lambda>(pad, out) p.
        let c = map (\<lambda>b. b XOR pad) p in Some ((pad, out @ c), c)),
      cipher_final = (\<lambda>st. Some (st, [])),
      getAuthTag = (\<lambda>(pad, out). Some (xor_tag pad out)),
      createDecipheriv = (\<lambda>alg key ivb.
        if alg = ''aes-256-gcm'' \<and> length key = 32 \<and> ivb \<noteq> []
        then Some (xor_pad key ivb, [], []) else None),
      setAuthTag = (\<lambda>(pad, t, inp) t'.
        if length t' \<in> {4, 8, 12, 13, 14, 15, 16} then Some (pad, t', inp) else None),
      decipher_update = (\<lambda>(pad, t, inp) c.
        Some ((pad, t, inp @ c), map (\<lambda>b. b XOR pad) c)),
      decipher_final = (\<lambda>(pad, t, inp).
        if take (length t) (xor_tag pad inp) = t then Some [] else None)\<rparr>"

text \<open>A crypto module in which every call throws.\<close>

definition failing_lib :: "(unit, unit) crypto" where
  "failing_lib =
     \<lparr>createCipheriv = (\<lambda>alg key ivb. None),
      cipher_update = (\<lambda>c p. None),
      cipher_final = (\<lambda>c. None),
      getAuthTag = (\<lambda>c. None),
      createDecipheriv = (\<lambda>alg key ivb. None),
      setAuthTag = (\<lambda>d t. None),
      decipher_update = (\<lambda>d c. None),
      decipher_final = (\<lambda>d. None)\<rparr>"

section \<open>Sample inputs\<close>

text \<open>
  The key of the specification's concrete scenario (32 zero bytes), and a random source
  whose first bytes are \<open>a5 b5 c5\<close>, so that the generated nonce is \<open>a5b5c5\<close>.
\<close>

definition zero_key :: buffer where
  "zero_key = replicate 32 0"

definition sample_entropy :: entropy where
  "sample_entropy i = of_nat (16 * i + 165)"

section \<open>Properties of the encodings\<close>

declare keyLength_def [simp] ivLength_def [simp] authTagLength_def [simp]

subsection \<open>Bytes, bit by bit\<close>

lemma byte_index: "n < 8 \<Longrightarrow> n \<in> {0, 1, 2, 3, 4, 5, 6, 7::nat}"
  by auto

lemma byte_eqI:
  assumes "\<And>n. n \<in> {0, 1, 2, 3, 4, 5, 6, 7::nat} \<Longrightarrow> bit a n = bit b n"
  shows "a = (b::byte)"
proof (rule bit_eqI)
  fix n
  assume "possible_bit TYPE(byte) n"
  show "bit a n = bit b n"
  proof (cases "n < 8")
    case True
    then show ?thesis by (intro assms byte_index)
  next
    case False
    then have "\<not> bit a n" "\<not> bit b n"
      using bit_imp_le_length[of a n] bit_imp_le_length[of b n] by auto
    then show ?thesis by simp
  qed
qed

lemma bit_Suc_numerals:
  "bit (a::byte) (Suc (Suc 0)) = bit a 2"
  "bit a (Suc (Suc (Suc 0))) = bit a 3"
  "bit a (Suc (Suc (Suc (Suc 0)))) = bit a 4"
  "bit a (Suc (Suc (Suc (Suc (Suc 0))))) = bit a 5"
  "bit a (Suc (Suc (Suc (Suc (Suc (Suc 0)))))) = bit a 6"
  "bit a (Suc (Suc (Suc (Suc (Suc (Suc (Suc 0))))))) = bit a 7"
  by (simp_all add: eval_nat_numeral)

lemma byte_bit_high: "bit (a::byte) n \<Longrightarrow> n < 8"
  using bit_imp_le_length[of a n] by simp

lemma regroup1:
  "push_bit 2 (drop_bit 2 a AND 0x3F)
     OR drop_bit 4 ((push_bit 4 (a AND 3) OR drop_bit 4 b) AND 0x30) = (a::byte)"
  by (rule byte_eqI) (auto simp add: bit_simps bit_Suc_numerals)

lemma regroup2:
  "push_bit 4 ((push_bit 4 (a AND 3) OR drop_bit 4 b) AND 0x0F)
     OR drop_bit 2 ((push_bit 2 (b AND 15) OR drop_bit 6 c) AND 0x3C) = (b::byte)"
  by (rule byte_eqI) (auto simp add: bit_simps bit_Suc_numerals)

lemma regroup3:
  "push_bit 6 ((push_bit 2 (b AND 15) OR drop_bit 6 c) AND 0x03) OR ((c AND 63) AND 0x3F)
     = (c::byte)"
  by (rule byte_eqI) (auto simp add: bit_simps bit_Suc_numerals)

lemma regroup1_last:
  "push_bit 2 (drop_bit 2 a AND 0x3F) OR drop_bit 4 (push_bit 4 (a AND 3) AND 0x30) = (a::byte)"
  by (rule byte_eqI) (auto simp add: bit_simps bit_Suc_numerals)

lemma regroup2_last:
  "push_bit 4 ((push_bit 4 (a AND 3) OR drop_bit 4 b) AND 0x0F)
     OR drop_bit 2 (push_bit 2 (b AND 15) AND 0x3C) = (b::byte)"
  by (rule byte_eqI) (auto simp add: bit_simps bit_Suc_numerals)

lemma sextet_bound: "v AND 63 = v \<Longrightarrow> unat (v::byte) < 64"
proof -
  assume h: "v AND 63 = v"
  have "unat (v AND 63) \<le> unat (63 :: byte)"
    by (rule word_and_le1 [THEN word_le_nat_alt [THEN iffD1]])
  then show ?thesis using h by simp
qed

lemma sextet1: "unat (drop_bit 2 (a::byte)) < 64"
  by (rule sextet_bound, rule byte_eqI)
     (auto simp add: bit_simps bit_Suc_numerals dest: byte_bit_high)

lemma sextet2: "unat (push_bit 4 (a AND 3) OR drop_bit 4 (b::byte)) < 64"
  by (rule sextet_bound, rule byte_eqI)
     (auto simp add: bit_simps bit_Suc_numerals dest: byte_bit_high)

lemma sextet3: "unat (push_bit 2 (b AND 15) OR drop_bit 6 (c::byte)) < 64"
  by (rule sextet_bound, rule byte_eqI)
     (auto simp add: bit_simps bit_Suc_numerals dest: byte_bit_high)

lemma sextet4: "unat ((c::byte) AND 63) < 64"
  by (rule sextet_bound, rule byte_eqI) (auto simp add: bit_simps)

lemma sextet2_last: "unat (push_bit 4 ((a::byte) AND 3)) < 64"
  by (rule sextet_bound, rule byte_eqI) (auto simp add: bit_simps bit_Suc_numerals)

lemma sextet3_last: "unat (push_bit 2 ((b::byte) AND 15)) < 64"
  by (rule sextet_bound, rule byte_eqI) (auto simp add: bit_simps bit_Suc_numerals)

subsection \<open>Base64\<close>

lemma low_byte_of_nat: "n < 256 \<Longrightarrow> unat (ucast (of_nat n :: jschar) :: byte) = n"
  by (simp add: unsigned_ucast_eq unat_of_nat take_bit_eq_mod)

lemma b64_code_lt: "b64_code n < 256"
  unfolding b64_code_def by (simp split: if_splits) arith

lemma unbase64_b64_code: "n < 64 \<Longrightarrow> unbase64_code (b64_code n) = Some n"
  unfolding unbase64_code_def b64_code_def by (simp split: if_splits) arith

lemma unbase64_b64_char: "unat v < 64 \<Longrightarrow> unbase64 (b64_char v) = Some v"
  by (simp add: unbase64_def b64_char_def low_byte_of_nat b64_code_lt unbase64_b64_code)

lemma b64_sextets_char: "unat v < 64 \<Longrightarrow> b64_sextets (b64_char v # s) = v # b64_sextets s"
  by (simp add: unbase64_b64_char)

lemma b64_sextets_pad: "b64_sextets (61 # s) = []"
  by (simp add: unbase64_def unbase64_code_def)

lemma b64_sextets_toBase64:
  "b64_sextets (toBase64 (a # b # c # rest)) =
     [drop_bit 2 a, push_bit 4 (a AND 3) OR drop_bit 4 b,
      push_bit 2 (b AND 15) OR drop_bit 6 c, c AND 63] @ b64_sextets (toBase64 rest)"
  by (simp only: toBase64.simps append_Cons append_Nil b64_sextets_char[OF sextet1]
      b64_sextets_char[OF sextet2] b64_sextets_char[OF sextet3] b64_sextets_char[OF sextet4])

lemma fromBase64_toBase64: "fromBase64 (toBase64 b) = b"
proof (induction b rule: toBase64.induct)
  case 1
  show ?case by (simp add: fromBase64_def)
next
  case (2 a)
  show ?case
    by (simp only: fromBase64_def toBase64.simps b64_sextets_char[OF sextet1]
        b64_sextets_char[OF sextet2_last] b64_sextets_pad b64_bytes.simps regroup1_last)
next
  case (3 a b)
  show ?case
    by (simp only: fromBase64_def toBase64.simps b64_sextets_char[OF sextet1]
        b64_sextets_char[OF sextet2] b64_sextets_char[OF sextet3_last] b64_sextets_pad
        b64_bytes.simps regroup1 regroup2_last)
next
  case (4 a b c rest)
  have "fromBase64 (toBase64 (a # b # c # rest)) = [a, b, c] @ fromBase64 (toBase64 rest)"
    by (simp only: fromBase64_def b64_sextets_toBase64 append_Cons append_Nil b64_bytes.simps
        regroup1 regroup2 regroup3)
  with 4 show ?case by simp
qed

lemma valid_base64_iff: "valid_base64 s \<longleftrightarrow> (\<exists>b. s = toBase64 b)"
  unfolding valid_base64_def by (metis fromBase64_toBase64)

subsection \<open>Hexadecimal text and its UTF-8 bytes\<close>

lemma length_randomBytes: "length (randomBytes rnd n) = n"
  by (simp add: randomBytes_def)

lemma length_toHex: "length (toHex bs) = 2 * length bs"
  by (induction bs) (simp_all add: toHex_def)

lemma hex_digit_ascii: "n < 16 \<Longrightarrow> hex_digit n < 0x80"
proof -
  assume n: "n < 16"
  define m where "m = (if n < 10 then 48 + n else 87 + n)"
  have m: "m < 128" using n by (simp add: m_def)
  have "hex_digit n = of_nat m" by (simp add: hex_digit_def m_def)
  moreover have "unat (of_nat m :: jschar) = m" using m by (simp only: unat_of_nat) simp
  ultimately have "unat (hex_digit n) < 128" using m by simp
  then show ?thesis by (simp add: word_less_nat_alt)
qed

lemma byte_div_16: "unat (b::byte) div 16 < 16"
  using unsigned_less[of b, where 'a=nat] by simp

lemma toHex_ascii: "c \<in> set (toHex bs) \<Longrightarrow> c < 0x80"
  by (auto simp add: toHex_def byte_div_16 intro!: hex_digit_ascii)

lemma ascii_not_surrogate: "c < 0x80 \<Longrightarrow> \<not> is_lead c \<and> \<not> is_trail (c::jschar)"
  by (auto simp add: is_lead_def is_trail_def word_less_nat_alt word_le_nat_alt)

lemma utf8_cp_ascii: "c < 0x80 \<Longrightarrow> utf8_cp (unat (c::jschar)) = [ucast c]"
  by (simp add: utf8_cp_def word_less_nat_alt)

lemma utf8_ascii: "\<forall>c \<in> set s. c < 0x80 \<Longrightarrow> utf8 s = map ucast s"
  by (induction s rule: utf8.induct) (simp_all add: ascii_not_surrogate utf8_cp_ascii)

lemma length_generateRandomString: "length (generateRandomString rnd) = 6"
  by (simp add: generateRandomString_def length_toHex length_randomBytes)

lemma generateRandomString_ascii: "c \<in> set (generateRandomString rnd) \<Longrightarrow> c < 0x80"
  unfolding generateRandomString_def by (auto dest: in_set_takeD toHex_ascii)

lemma utf8_generateRandomString:
  "utf8 (generateRandomString rnd) = map ucast (generateRandomString rnd)"
  by (rule utf8_ascii) (auto dest: generateRandomString_ascii)

lemma length_utf8_generateRandomString: "length (utf8 (generateRandomString rnd)) = 6"
  by (simp add: utf8_generateRandomString length_generateRandomString)

section \<open>The claims\<close>

subsection \<open>The class in terms of the cipher's runs\<close>

lemma encrypt_seal:
  "encrypt lib rnd data key fixedIv =
     (if length key \<noteq> 32 then Inl InvalidKeyLength
      else if truthy fixedIv \<and> length (the fixedIv) \<noteq> 6 then Inl InvalidNonceLength
      else
        (case seal lib key (utf8 (if truthy fixedIv then the fixedIv else generateRandomString rnd))
                (bufferOf data) of
           None \<Rightarrow> Inl LibraryError
         | Some (c, t) \<Rightarrow>
             Inr \<lparr>encrypted = c,
                  iv = (if truthy fixedIv then the fixedIv else generateRandomString rnd),
                  authTag = t\<rparr>))"
  by (simp add: encrypt_def seal_def Let_def split: option.splits prod.splits)

lemma encrypt_generated:
  assumes "length key = 32" and "\<not> truthy fixedIv"
    and "seal lib key (utf8 (generateRandomString rnd)) (bufferOf data) = Some (c, t)"
  shows "encrypt lib rnd data key fixedIv =
           Inr \<lparr>encrypted = c, iv = generateRandomString rnd, authTag = t\<rparr>"
  using assms by (simp add: encrypt_seal)

lemma decrypt_accepts:
  "length key = 32 \<Longrightarrow> lib_accepts lib key (bufferOf ivarg) c t p \<Longrightarrow>
   decrypt lib c key ivarg t = Inr p"
  by (auto simp add: decrypt_def lib_accepts_def Let_def split: option.splits prod.splits)


lemma decrypt_errors:
  "decrypt lib c key ivarg t = Inl e \<Longrightarrow>
   e = InvalidKeyLength \<or> e = LibraryError \<or> e = AuthenticationFailed"
  by (auto simp add: decrypt_def Let_def split: if_splits option.splits prod.splits)

lemma decryptFromBuffer_layout:
  "length ivb = 6 \<Longrightarrow> length t = 16 \<Longrightarrow>
   decryptFromBuffer lib (ivb @ t @ c) key = decrypt lib c key (Buf ivb) t"
  by (simp add: decryptFromBuffer_def subarray_def subarray_from_def)

lemma bufferOf_simps [simp]: "bufferOf (Str s) = utf8 s" "bufferOf (Buf b) = b"
  by (simp_all add: bufferOf_def)

lemma truthy_simps [simp]:
  "truthy None = False" "truthy (Some []) = False" "s \<noteq> [] \<Longrightarrow> truthy (Some s) = True"
  by (simp_all add: truthy_def)

lemma encryptToBuffer_concat:
  "encrypt lib rnd data key fixedIv = Inr r \<Longrightarrow>
   encryptToBuffer lib rnd data key fixedIv = Inr (utf8 (iv r) @ authTag r @ encrypted r)"
  by (simp add: encryptToBuffer_def)

subsection \<open>The sample inputs\<close>

lemma length_zero_key: "length zero_key = 32"
  by (simp add: zero_key_def)

lemma sample_sealed:
  "seal xor_lib zero_key (utf8 (generateRandomString sample_entropy))
      (bufferOf (Str (ascii ''hello''))) =
   Some ([103, 106, 99, 99, 96], [98, 5, 15, 15, 15, 15, 15, 15, 15, 15, 15, 15, 15, 15, 15, 15])"
  by code_simp

lemma sample_opens:
  "lib_accepts xor_lib zero_key (utf8 (generateRandomString sample_entropy))
      [103, 106, 99, 99, 96] [98, 5, 15, 15, 15, 15, 15, 15, 15, 15, 15, 15, 15, 15, 15, 15]
      (bufferOf (Str (ascii ''hello'')))"
  by code_simp


subsection \<open>C1: round trip\<close>

text \<open>
  C1. Take a 32-byte key, any plaintext (a string or a buffer, possibly empty) and no
  fixed nonce, and let the cipher, on this key, the generated nonce and the plaintext
  bytes, produce a ciphertext with a 16-byte tag that its decipher opens to the same
  bytes. Then each layer gives the plaintext bytes back: \<open>decrypt\<close> on the ciphertext,
  nonce and tag of \<open>encrypt\<close>, \<open>decryptFromBuffer\<close> on the blob of \<open>encryptToBuffer\<close>,
  and \<open>decryptFromString\<close> on the text of \<open>encryptToString\<close>.
\<close>

theorem round_trip:
  assumes key: "length key = 32"
    and sealed: "seal lib key (utf8 (generateRandomString rnd)) (bufferOf data) = Some (c, t)"
    and tag16: "length t = 16"
    and opens: "lib_accepts lib key (utf8 (generateRandomString rnd)) c t (bufferOf data)"
  shows "(case encrypt lib rnd data key None of
            Inl e \<Rightarrow> False
          | Inr r \<Rightarrow> decrypt lib (encrypted r) key (Str (iv r)) (authTag r) = Inr (bufferOf data))
       \<and> (case encryptToBuffer lib rnd data key None of
            Inl e \<Rightarrow> False
          | Inr blob \<Rightarrow> decryptFromBuffer lib blob key = Inr (bufferOf data))
       \<and> (case encryptToString lib rnd data key None of
            Inl e \<Rightarrow> False
          | Inr s \<Rightarrow> decryptFromString lib s key = Inr (bufferOf data))"
proof -
  let ?n = "generateRandomString rnd"
  have enc: "encrypt lib rnd data key None = Inr \<lparr>encrypted = c, iv = ?n, authTag = t\<rparr>"
    using key sealed by (simp add: encrypt_generated)
  have raw: "decrypt lib c key (Str ?n) t = Inr (bufferOf data)"
    using key opens by (simp add: decrypt_accepts)
  have buf: "decrypt lib c key (Buf (utf8 ?n)) t = Inr (bufferOf data)"
    using key opens by (simp add: decrypt_accepts)
  have blob: "encryptToBuffer lib rnd data key None = Inr (utf8 ?n @ t @ c)"
    by (simp add: encryptToBuffer_def enc)
  have frombuf: "decryptFromBuffer lib (utf8 ?n @ t @ c) key = Inr (bufferOf data)"
    using buf tag16 by (simp add: decryptFromBuffer_layout length_utf8_generateRandomString)
  have as_text: "encryptToString lib rnd data key None = Inr (toBase64 (utf8 ?n @ t @ c))"
    by (simp add: encryptToString_def blob)
  have fromtxt: "decryptFromString lib (toBase64 (utf8 ?n @ t @ c)) key = Inr (bufferOf data)"
    using frombuf by (simp add: decryptFromString_def fromBase64_toBase64)
  show ?thesis
    by (simp add: enc raw blob frombuf as_text fromtxt)
qed

theorem round_trip_witness:
  "length zero_key = 32
   \<and> seal xor_lib zero_key (utf8 (generateRandomString sample_entropy))
        (bufferOf (Str (ascii ''hello''))) =
      Some ([103, 106, 99, 99, 96], [98, 5, 15, 15, 15, 15, 15, 15, 15, 15, 15, 15, 15, 15, 15, 15])
   \<and> length [98, 5, 15, 15, 15, 15, 15, 15, 15, 15, 15, 15, 15, 15, 15, 15 :: byte] = 16
   \<and> lib_accepts xor_lib zero_key (utf8 (generateRandomString sample_entropy))
        [103, 106, 99, 99, 96] [98, 5, 15, 15, 15, 15, 15, 15, 15, 15, 15, 15, 15, 15, 15, 15]
        (bufferOf (Str (ascii ''hello'')))
   \<and> (case encrypt xor_lib sample_entropy (Str (ascii ''hello'')) zero_key None of
         Inl e \<Rightarrow> False
       | Inr r \<Rightarrow> decrypt xor_lib (encrypted r) zero_key (Str (iv r)) (authTag r)
                    = Inr (bufferOf (Str (ascii ''hello''))))
   \<and> (case encryptToBuffer xor_lib sample_entropy (Str (ascii ''hello'')) zero_key None of
         Inl e \<Rightarrow> False
       | Inr blob \<Rightarrow> decryptFromBuffer xor_lib blob zero_key = Inr (bufferOf (Str (ascii ''hello''))))
   \<and> (case encryptToString xor_lib sample_entropy (Str (ascii ''hello'')) zero_key None of
         Inl e \<Rightarrow> False
       | Inr s \<Rightarrow> decryptFromString xor_lib s zero_key = Inr (bufferOf (Str (ascii ''hello''))))"
proof -
  have t16: "length [98, 5, 15, 15, 15, 15, 15, 15, 15, 15, 15, 15, 15, 15, 15, 15 :: byte] = 16"
    by simp
  show ?thesis
    using round_trip [OF length_zero_key sample_sealed t16 sample_opens]
      length_zero_key sample_sealed sample_opens
    by simp
qed

subsection \<open>C2: tampering\<close>



subsection \<open>C3: blobs shorter than 22 bytes\<close>

text \<open>
  C3, as the code has it. \<open>decryptFromBuffer\<close> does not look at the length of the blob.
  A blob shorter than 22 bytes is sliced like a longer one: the nonce is its first 6
  bytes (or fewer), the tag is what follows them, the ciphertext is empty; and the
  outcome is the outcome of \<open>decrypt\<close> on these, never \<open>MalformedBlob\<close>.
\<close>

theorem short_blob_not_checked:
  "length blob < 22 \<Longrightarrow>
   decryptFromBuffer lib blob key = decrypt lib [] key (Buf (take 6 blob)) (drop 6 blob)
   \<and> decryptFromBuffer lib blob key \<noteq> Inl MalformedBlob"
proof -
  assume short: "length blob < 22"
  have eq: "decryptFromBuffer lib blob key = decrypt lib [] key (Buf (take 6 blob)) (drop 6 blob)"
    using short by (simp add: decryptFromBuffer_def subarray_def subarray_from_def)
  have "decrypt lib [] key (Buf (take 6 blob)) (drop 6 blob) \<noteq> Inl MalformedBlob"
    using decrypt_errors [of lib "[]" key "Buf (take 6 blob)" "drop 6 blob" MalformedBlob]
    by auto
  with eq show ?thesis by simp
qed

theorem short_blob_not_checked_witness:
  "length [97, 53, 98, 53, 99, 53, 15, 0, 15, 15 :: byte] < 22
   \<and> decryptFromBuffer xor_lib [97, 53, 98, 53, 99, 53, 15, 0, 15, 15] zero_key
       = decrypt xor_lib [] zero_key (Buf (take 6 [97, 53, 98, 53, 99, 53, 15, 0, 15, 15]))
           (drop 6 [97, 53, 98, 53, 99, 53, 15, 0, 15, 15])
   \<and> decryptFromBuffer xor_lib [97, 53, 98, 53, 99, 53, 15, 0, 15, 15] zero_key
       \<noteq> Inl MalformedBlob
   \<and> decryptFromBuffer xor_lib [97, 53, 98, 53, 99, 53, 15, 0, 15, 15] zero_key = Inr []"
proof -
  have h: "length [97, 53, 98, 53, 99, 53, 15, 0, 15, 15 :: byte] < 22" by simp
  have v: "decryptFromBuffer xor_lib [97, 53, 98, 53, 99, 53, 15, 0, 15, 15] zero_key = Inr []"
    by code_simp
  show ?thesis
    using short_blob_not_checked [OF h, of xor_lib zero_key] h v by blast
qed

text \<open>
  The claim as stated fails: on 21 zero bytes, under the 32-byte zero key, the decipher
  is run (with a 15-byte tag) and the error is the decryption error.
\<close>

theorem short_blob_counterexample:
  "length (replicate 21 (0::byte)) < 22 \<and> length zero_key = 32
   \<and> decryptFromBuffer xor_lib (replicate 21 0) zero_key = Inl AuthenticationFailed
   \<and> decryptFromBuffer xor_lib (replicate 21 0) zero_key \<noteq> Inl MalformedBlob"
proof -
  have v: "decryptFromBuffer xor_lib (replicate 21 0) zero_key = Inl AuthenticationFailed"
    by code_simp
  show ?thesis by (simp add: v length_zero_key)
qed

subsection \<open>C4: text that is not base64\<close>

text \<open>
  C4, as the code has it. \<open>decryptFromString\<close> does not validate its input: whatever
  the string, the bytes Node's lenient decoder reads from it go to \<open>decryptFromBuffer\<close>,
  and the outcome is the outcome of that call, never \<open>InvalidTextEncoding\<close>.
\<close>

theorem text_decoded_leniently:
  "decryptFromString lib s key = decryptFromBuffer lib (fromBase64 s) key
   \<and> decryptFromString lib s key \<noteq> Inl InvalidTextEncoding"
proof -
  have eq: "decryptFromString lib s key = decryptFromBuffer lib (fromBase64 s) key"
    by (simp add: decryptFromString_def)
  have "decryptFromBuffer lib (fromBase64 s) key \<noteq> Inl InvalidTextEncoding"
    unfolding decryptFromBuffer_def Let_def
    using decrypt_errors [where e = InvalidTextEncoding] by fastforce
  with eq show ?thesis by simp
qed

text \<open>
  The claim as stated fails: the text of an encrypted empty plaintext with its padding
  cut off is not valid base64 and decrypts to the empty plaintext; the text \<open>!\<close> is
  not valid base64, decodes to no bytes, and fails in the cipher, on the empty nonce.
\<close>

theorem invalid_text_counterexample:
  "encryptToString xor_lib sample_entropy (Str []) zero_key None
     = Inr (ascii ''YTViNWM1DwAPDw8PDw8PDw8PDw8PDw=='')
   \<and> \<not> valid_base64 (ascii ''YTViNWM1DwAPDw8PDw8PDw8PDw8PDw'') \<and> length zero_key = 32
   \<and> decryptFromString xor_lib (ascii ''YTViNWM1DwAPDw8PDw8PDw8PDw8PDw'') zero_key = Inr []
   \<and> \<not> valid_base64 (ascii ''!'')
   \<and> decryptFromString xor_lib (ascii ''!'') zero_key = Inl LibraryError"
proof -
  have e: "encryptToString xor_lib sample_entropy (Str []) zero_key None
     = Inr (ascii ''YTViNWM1DwAPDw8PDw8PDw8PDw8PDw=='')"
    by code_simp
  have a: "\<not> valid_base64 (ascii ''YTViNWM1DwAPDw8PDw8PDw8PDw8PDw'')" by code_simp
  have b: "decryptFromString xor_lib (ascii ''YTViNWM1DwAPDw8PDw8PDw8PDw8PDw'') zero_key = Inr []"
    by code_simp
  have c: "\<not> valid_base64 (ascii ''!'')" by code_simp
  have d: "decryptFromString xor_lib (ascii ''!'') zero_key = Inl LibraryError" by code_simp
  show ?thesis using e a b c d length_zero_key by simp
qed

subsection \<open>C5: fixed nonces of the wrong length\<close>

text \<open>
  C5, as the code has it. Under a 32-byte key, a fixed nonce that is not the empty
  string and whose length is not 6 makes \<open>encrypt\<close>, and with it \<open>encryptToBuffer\<close>
  and \<open>encryptToString\<close>, fail with \<open>InvalidNonceLength\<close>; no nonce is cut, padded or
  replaced.
\<close>

theorem wrong_length_nonce_rejected:
  assumes "length key = 32" and "n \<noteq> []" and "length n \<noteq> 6"
  shows "encrypt lib rnd data key (Some n) = Inl InvalidNonceLength
       \<and> encryptToBuffer lib rnd data key (Some n) = Inl InvalidNonceLength
       \<and> encryptToString lib rnd data key (Some n) = Inl InvalidNonceLength"
proof -
  have "encrypt lib rnd data key (Some n) = Inl InvalidNonceLength"
    using assms by (simp add: encrypt_seal)
  then show ?thesis by (simp add: encryptToBuffer_def encryptToString_def)
qed

theorem wrong_length_nonce_rejected_witness:
  "length zero_key = 32 \<and> ascii ''abcde'' \<noteq> [] \<and> length (ascii ''abcde'') \<noteq> 6
   \<and> encrypt xor_lib sample_entropy (Str (ascii ''hello'')) zero_key (Some (ascii ''abcde''))
       = Inl InvalidNonceLength
   \<and> encryptToBuffer xor_lib sample_entropy (Str (ascii ''hello'')) zero_key
        (Some (ascii ''abcde'')) = Inl InvalidNonceLength
   \<and> encryptToString xor_lib sample_entropy (Str (ascii ''hello'')) zero_key
        (Some (ascii ''abcde'')) = Inl InvalidNonceLength"
proof -
  have a: "ascii ''abcde'' \<noteq> []" by (simp add: ascii_def)
  have b: "length (ascii ''abcde'') \<noteq> 6" by (simp add: ascii_def)
  show ?thesis
    using wrong_length_nonce_rejected [OF length_zero_key a b] length_zero_key a b by simp
qed

text \<open>
  The claim as stated fails twice: the empty string has length 0 and is accepted (a
  nonce is generated in its place); and under a key that is not 32 bytes long the
  error is \<open>InvalidKeyLength\<close>, since the key is checked first.
\<close>

theorem wrong_length_nonce_counterexample:
  "length zero_key = 32 \<and> length ([] :: jsstring) \<noteq> 6
   \<and> encrypt xor_lib sample_entropy (Str (ascii ''hello'')) zero_key (Some [])
       = Inr \<lparr>encrypted = [103, 106, 99, 99, 96], iv = ascii ''a5b5c5'',
              authTag = [98, 5, 15, 15, 15, 15, 15, 15, 15, 15, 15, 15, 15, 15, 15, 15]\<rparr>
   \<and> length (ascii ''abc'') \<noteq> 6
   \<and> encrypt xor_lib sample_entropy (Str (ascii ''hello'')) (utf8 (ascii ''tooshort''))
        (Some (ascii ''abc'')) = Inl InvalidKeyLength"
proof -
  have a: "encrypt xor_lib sample_entropy (Str (ascii ''hello'')) zero_key (Some [])
       = Inr \<lparr>encrypted = [103, 106, 99, 99, 96], iv = ascii ''a5b5c5'',
              authTag = [98, 5, 15, 15, 15, 15, 15, 15, 15, 15, 15, 15, 15, 15, 15, 15]\<rparr>"
    by code_simp
  have b: "encrypt xor_lib sample_entropy (Str (ascii ''hello'')) (utf8 (ascii ''tooshort''))
        (Some (ascii ''abc'')) = Inl InvalidKeyLength"
    by code_simp
  show ?thesis using a b length_zero_key by (simp add: ascii_def)
qed

subsection \<open>C6: keys of the wrong length\<close>

text \<open>
  C6. With a key that is not 32 bytes long, \<open>encrypt\<close> and \<open>decrypt\<close> fail with
  \<open>InvalidKeyLength\<close>, whatever the crypto module and the random source would do: no
  call of either comes before the check. The witness takes the module in which every
  call throws.
\<close>

theorem key_length_checked_first:
  "length key \<noteq> 32 \<Longrightarrow>
   encrypt lib rnd data key fixedIv = Inl InvalidKeyLength
   \<and> decrypt lib enc key ivarg tag = Inl InvalidKeyLength"
  by (simp add: encrypt_def decrypt_def)

theorem key_length_checked_first_witness:
  "length (utf8 (ascii ''tooshort'')) \<noteq> 32
   \<and> encrypt failing_lib sample_entropy (Str (ascii ''This is a secret message''))
        (utf8 (ascii ''tooshort'')) None = Inl InvalidKeyLength
   \<and> decrypt failing_lib [103, 106, 99, 99, 96] (utf8 (ascii ''tooshort''))
        (Str (ascii ''a5b5c5'')) [98, 5, 15, 15, 15, 15, 15, 15, 15, 15, 15, 15, 15, 15, 15, 15]
       = Inl InvalidKeyLength"
proof -
  have h: "length (utf8 (ascii ''tooshort'')) \<noteq> 32" by code_simp
  show ?thesis
    using key_length_checked_first [OF h] h by simp
qed

subsection \<open>C7: layout of the blob\<close>

text \<open>
  C7. Take a 32-byte key, any plaintext and no fixed nonce, and let the cipher, on
  this key, the generated nonce and the plaintext bytes, produce a ciphertext as long
  as the plaintext and a 16-byte tag. Then \<open>encryptToBuffer\<close> returns a blob of
  22 bytes more than the plaintext; its first 6 bytes are the bytes of the nonce that
  \<open>encrypt\<close> used, the next 16 are the tag, and the rest is the ciphertext.
\<close>

theorem blob_layout:
  assumes key: "length key = 32"
    and sealed: "seal lib key (utf8 (generateRandomString rnd)) (bufferOf data) = Some (c, t)"
    and same_length: "length c = length (bufferOf data)"
    and tag16: "length t = 16"
  shows "(case encrypt lib rnd data key None of
            Inl e \<Rightarrow> False
          | Inr r \<Rightarrow>
              (case encryptToBuffer lib rnd data key None of
                 Inl e \<Rightarrow> False
               | Inr blob \<Rightarrow>
                   length blob = 22 + length (bufferOf data)
                   \<and> take 6 blob = utf8 (iv r)
                   \<and> take 16 (drop 6 blob) = authTag r
                   \<and> drop 22 blob = encrypted r))"
proof -
  let ?n = "generateRandomString rnd"
  have enc: "encrypt lib rnd data key None = Inr \<lparr>encrypted = c, iv = ?n, authTag = t\<rparr>"
    using key sealed by (simp add: encrypt_generated)
  have blob: "encryptToBuffer lib rnd data key None = Inr (utf8 ?n @ t @ c)"
    by (simp add: encryptToBuffer_def enc)
  show ?thesis
    using same_length tag16 by (simp add: enc blob length_utf8_generateRandomString)
qed

theorem blob_layout_witness:
  "length zero_key = 32
   \<and> seal xor_lib zero_key (utf8 (generateRandomString sample_entropy))
        (bufferOf (Str (ascii ''hello''))) =
      Some ([103, 106, 99, 99, 96], [98, 5, 15, 15, 15, 15, 15, 15, 15, 15, 15, 15, 15, 15, 15, 15])
   \<and> length [103, 106, 99, 99, 96 :: byte] = length (bufferOf (Str (ascii ''hello'')))
   \<and> length [98, 5, 15, 15, 15, 15, 15, 15, 15, 15, 15, 15, 15, 15, 15, 15 :: byte] = 16
   \<and> (case encrypt xor_lib sample_entropy (Str (ascii ''hello'')) zero_key None of
         Inl e \<Rightarrow> False
       | Inr r \<Rightarrow>
           (case encryptToBuffer xor_lib sample_entropy (Str (ascii ''hello'')) zero_key None of
              Inl e \<Rightarrow> False
            | Inr blob \<Rightarrow>
                length blob = 22 + length (bufferOf (Str (ascii ''hello'')))
                \<and> take 6 blob = utf8 (iv r)
                \<and> take 16 (drop 6 blob) = authTag r
                \<and> drop 22 blob = encrypted r))"
proof -
  have a: "length [103, 106, 99, 99, 96 :: byte] = length (bufferOf (Str (ascii ''hello'')))"
    by code_simp
  have b: "length [98, 5, 15, 15, 15, 15, 15, 15, 15, 15, 15, 15, 15, 15, 15, 15 :: byte] = 16"
    by simp
  show ?thesis
    using blob_layout [OF length_zero_key sample_sealed a b] length_zero_key sample_sealed a b
    by simp
qed

subsection \<open>C8: determinism with a fixed nonce\<close>

text \<open>
  C8. With a 32-byte key and a fixed nonce of 6 characters, the result of \<open>encrypt\<close>
  does not depend on the random source: two calls on the same key, nonce and
  plaintext return the same ciphertext and the same tag. (The cipher is a function of
  the key, the nonce and the plaintext.)
\<close>

theorem fixed_nonce_deterministic:
  assumes "length key = 32" and "length n = 6"
  shows "encrypt lib rnd1 data key (Some n) = encrypt lib rnd2 data key (Some n)"
proof -
  from assms(2) have "n \<noteq> []" by auto
  then have "truthy (Some n)" by simp
  then show ?thesis by (simp add: encrypt_seal)
qed

theorem fixed_nonce_deterministic_witness:
  "length zero_key = 32 \<and> length (ascii ''abcdef'') = 6
   \<and> encrypt xor_lib sample_entropy (Str (ascii ''hello'')) zero_key (Some (ascii ''abcdef''))
     = encrypt xor_lib (\<lambda>i. 0) (Str (ascii ''hello'')) zero_key (Some (ascii ''abcdef''))
   \<and> encrypt xor_lib sample_entropy (Str (ascii ''hello'')) zero_key (Some (ascii ''abcdef''))
     = Inr \<lparr>encrypted = [53, 56, 49, 49, 50], iv = ascii ''abcdef'',
            authTag = [98, 5, 93, 93, 93, 93, 93, 93, 93, 93, 93, 93, 93, 93, 93, 93]\<rparr>"
proof -
  have h: "length (ascii ''abcdef'') = 6" by (simp add: ascii_def)
  have v: "encrypt xor_lib sample_entropy (Str (ascii ''hello'')) zero_key
             (Some (ascii ''abcdef''))
     = Inr \<lparr>encrypted = [53, 56, 49, 49, 50], iv = ascii ''abcdef'',
            authTag = [98, 5, 93, 93, 93, 93, 93, 93, 93, 93, 93, 93, 93, 93, 93, 93]\<rparr>"
    by code_simp
  show ?thesis
    using fixed_nonce_deterministic [OF length_zero_key h, of xor_lib sample_entropy
        "Str (ascii ''hello'')" "\<lambda>i. 0"] length_zero_key h v
    by blast
qed

subsection \<open>C9: lengths of the ciphertext and the tag\<close>



subsection \<open>C10: the empty string as a fixed nonce\<close>

text \<open>
  C10. Under a 32-byte key, \<open>encrypt\<close> with the empty string as fixed nonce does what
  it does with no fixed nonce. It does not fail with \<open>InvalidNonceLength\<close>; the nonce
  is the generated one, 6 characters long; and where the cipher succeeds on that
  nonce, the call succeeds with it.
\<close>

theorem empty_fixed_nonce_is_absent:
  assumes key: "length key = 32"
  shows "encrypt lib rnd data key (Some []) = encrypt lib rnd data key None
       \<and> encrypt lib rnd data key (Some []) \<noteq> Inl InvalidNonceLength
       \<and> length (generateRandomString rnd) = 6
       \<and> (seal lib key (utf8 (generateRandomString rnd)) (bufferOf data) = Some (c, t)
          \<longrightarrow> encrypt lib rnd data key (Some []) =
                Inr \<lparr>encrypted = c, iv = generateRandomString rnd, authTag = t\<rparr>)"
  using key
  by (simp add: encrypt_seal length_generateRandomString split: option.splits prod.splits)

theorem empty_fixed_nonce_is_absent_witness:
  "length zero_key = 32
   \<and> seal xor_lib zero_key (utf8 (generateRandomString sample_entropy))
        (bufferOf (Str (ascii ''hello''))) =
      Some ([103, 106, 99, 99, 96], [98, 5, 15, 15, 15, 15, 15, 15, 15, 15, 15, 15, 15, 15, 15, 15])
   \<and> encrypt xor_lib sample_entropy (Str (ascii ''hello'')) zero_key (Some [])
     = encrypt xor_lib sample_entropy (Str (ascii ''hello'')) zero_key None
   \<and> encrypt xor_lib sample_entropy (Str (ascii ''hello'')) zero_key (Some [])
       \<noteq> Inl InvalidNonceLength
   \<and> generateRandomString sample_entropy = ascii ''a5b5c5''
   \<and> length (generateRandomString sample_entropy) = 6
   \<and> encrypt xor_lib sample_entropy (Str (ascii ''hello'')) zero_key (Some []) =
       Inr \<lparr>encrypted = [103, 106, 99, 99, 96], iv = generateRandomString sample_entropy,
            authTag = [98, 5, 15, 15, 15, 15, 15, 15, 15, 15, 15, 15, 15, 15, 15, 15]\<rparr>"
proof -
  have g: "generateRandomString sample_entropy = ascii ''a5b5c5''" by code_simp
  show ?thesis
    using empty_fixed_nonce_is_absent [OF length_zero_key, of xor_lib sample_entropy
        "Str (ascii ''hello'')" "[103, 106, 99, 99, 96]"
        "[98, 5, 15, 15, 15, 15, 15, 15, 15, 15, 15, 15, 15, 15, 15, 15]"]
      length_zero_key sample_sealed g
    by blast
qed

subsection \<open>Fixed nonces and the blob\<close>

text \<open>
  With a fixed nonce of 6 ASCII characters the cipher sees the same 6 bytes as the blob
  holds, and what holds of a generated nonce holds of the fixed one.
\<close>

lemma fixed_ascii_nonce:
  assumes key: "length key = 32"
    and six: "length n = 6"
    and plain: "\<forall>ch \<in> set n. ch < 0x80"
    and sealed: "seal lib key (utf8 n) (bufferOf data) = Some (c, t)"
    and tag16: "length t = 16"
    and opens: "lib_accepts lib key (utf8 n) c t (bufferOf data)"
  shows "encrypt lib rnd data key (Some n) = Inr \<lparr>encrypted = c, iv = n, authTag = t\<rparr>"
    and "decrypt lib c key (Str n) t = Inr (bufferOf data)"
    and "encryptToBuffer lib rnd data key (Some n) = Inr (utf8 n @ t @ c)"
    and "length (utf8 n) = 6"
    and "decryptFromBuffer lib (utf8 n @ t @ c) key = Inr (bufferOf data)"
    and "encryptToString lib rnd data key (Some n) = Inr (toBase64 (utf8 n @ t @ c))"
    and "decryptFromString lib (toBase64 (utf8 n @ t @ c)) key = Inr (bufferOf data)"
proof -
  from six have "n \<noteq> []" by auto
  then show enc: "encrypt lib rnd data key (Some n) = Inr \<lparr>encrypted = c, iv = n, authTag = t\<rparr>"
    using key six sealed by (simp add: encrypt_seal)
  show "decrypt lib c key (Str n) t = Inr (bufferOf data)"
    using key opens by (simp add: decrypt_accepts)
  show blob: "encryptToBuffer lib rnd data key (Some n) = Inr (utf8 n @ t @ c)"
    by (simp add: encryptToBuffer_def enc)
  show len: "length (utf8 n) = 6"
    using plain six by (simp add: utf8_ascii)
  have "decrypt lib c key (Buf (utf8 n)) t = Inr (bufferOf data)"
    using key opens by (simp add: decrypt_accepts)
  then show frombuf: "decryptFromBuffer lib (utf8 n @ t @ c) key = Inr (bufferOf data)"
    using len tag16 by (simp add: decryptFromBuffer_layout)
  show "encryptToString lib rnd data key (Some n) = Inr (toBase64 (utf8 n @ t @ c))"
    by (simp add: encryptToString_def blob)
  show "decryptFromString lib (toBase64 (utf8 n @ t @ c)) key = Inr (bufferOf data)"
    using frombuf by (simp add: decryptFromString_def fromBase64_toBase64)
qed

text \<open>
  The length test of \<open>encrypt\<close> counts characters, the blob holds bytes. A fixed nonce
  of 6 characters outside ASCII has more than 6 bytes and takes that many in the blob,
  which \<open>decryptFromBuffer\<close> still cuts at 6 and 22.
\<close>

lemma fixed_nonce_outside_ascii:
  "length [0xE9, 0xE9, 0xE9, 0xE9, 0xE9, 0xE9 :: jschar] = 6
   \<and> length (utf8 [0xE9, 0xE9, 0xE9, 0xE9, 0xE9, 0xE9]) = 12
   \<and> (case encryptToBuffer xor_lib sample_entropy (Str (ascii ''hello'')) zero_key
             (Some [0xE9, 0xE9, 0xE9, 0xE9, 0xE9, 0xE9]) of
         Inl e \<Rightarrow> False
       | Inr blob \<Rightarrow> length blob = 33
                     \<and> decryptFromBuffer xor_lib blob zero_key = Inl AuthenticationFailed)"
  by code_simp

end
